theory Spec2Isabelle
  imports Complex_Main
begin

section \<open>Reranking entry point of marqo: \<open>marqo/s2_inference/reranking/rerank.py\<close>\<close>

text \<open>
  The module holds three functions: \<open>rerank_search_results\<close> (the entry point),
  \<open>_check_searchable_fields_in_results\<close> (the applicability guard) and
  \<open>cleanup_final_reranked_results\<close> (the merge of the scratch fields into the
  canonical ones). All three work on one mutable dictionary; the embedding passes
  that dictionary in and hands the updated one back.
\<close>

subsection \<open>Data\<close>

text \<open>
  A hit is a Python \<open>dict\<close> from field names to values: a map. The values are only
  ever copied or deleted, never inspected, so their type is a parameter.
  The search result is the \<open>Dict[List]\<close> of the docstrings: a map from keys to
  lists of hits. Looking up a missing key raises \<open>KeyError\<close>.
  The containers are taken as unaliased: no hit object sits at two places of the
  result. (The loop body of the cleanup is idempotent, see \<open>cleanup_result_idem\<close>,
  so a hit object listed twice would end in the same state.)
\<close>

type_synonym 'v hit = "string \<rightharpoonup> 'v"

type_synonym 'v search_result = "string \<rightharpoonup> 'v hit list"

text \<open>
  \<open>searchable_attributes\<close> is annotated \<open>List[str]\<close> with default \<open>None\<close>; the
  source also compares it with the empty tuple and the empty string, so all four
  shapes are values of the type.
\<close>

datatype attrs = ANone | AList "string list" | ATuple "string list" | AStr string

text \<open>
  What \<open>for s in searchable_fields\<close> visits: the elements of a list or a tuple,
  the one-character strings of a string.
\<close>

fun attr_items :: "attrs \<Rightarrow> string list" where
  "attr_items ANone = []"
| "attr_items (AList xs) = xs"
| "attr_items (ATuple xs) = xs"
| "attr_items (AStr s) = map (\<lambda>c. [c]) s"

text \<open>
  The exceptions. \<open>RerankerError\<close> carries the two values its message interpolates
  (\<open>searchable_attributes\<close> and \<open>model_name\<close>); \<open>KeyError\<close> the missing key;
  \<open>StrategyError\<close> stands for whatever else a reranker raises.
\<close>

datatype error = RerankerError attrs string | KeyError string | StrategyError string

text \<open>
  What a call hands back when it returns: \<open>None\<close> (falling off the end of the
  function), or the \<open>search_result\<close> object it was given (line 25).
\<close>

datatype returned = Returns_None | Returns_search_result

text \<open>
  Modelled from the spec: the enum \<open>ResultsFields\<close> of
  \<open>marqo.s2_inference.reranking.enums\<close> is not among the source files; the key
  names are the ones the spec writes in its data model and scenarios.
\<close>

definition ResultsFields_hits :: string where
  "ResultsFields_hits = ''hits''"

definition ResultsFields_original_score :: string where
  "ResultsFields_original_score = ''original_score''"

definition ResultsFields_reranker_score :: string where
  "ResultsFields_reranker_score = ''reranker_score''"

definition ResultsFields_highlights :: string where
  "ResultsFields_highlights = ''highlights''"

definition ResultsFields_highlights_reranked :: string where
  "ResultsFields_highlights_reranked = ''highlights_reranked''"

definition ResultsFields_reranked_id :: string where
  "ResultsFields_reranked_id = ''reranked_id''"

text \<open>
  The rerankers \<open>ReRankerOwl\<close> and \<open>ReRankerText\<close> of
  \<open>marqo.s2_inference.reranking.cross_encoders\<close> are external: they are parameters.
  Constructing one and calling its \<open>rerank\<close> is one step that receives the
  constructor arguments (\<open>model_name\<close>, \<open>device\<close>, and \<open>image_size\<close> or
  \<open>num_highlights\<close>), the query, the result and the attributes; it leaves the
  result in some state and either returns (\<open>None\<close>) or raises (\<open>Some e\<close>).
\<close>

record 'v rerankers =
  ReRankerOwl :: "string \<Rightarrow> string \<Rightarrow> nat \<times> nat \<Rightarrow> string \<Rightarrow> 'v search_result \<Rightarrow> attrs
                    \<Rightarrow> 'v search_result \<times> error option"
  ReRankerText :: "string \<Rightarrow> string \<Rightarrow> int \<Rightarrow> string \<Rightarrow> 'v search_result \<Rightarrow> attrs
                    \<Rightarrow> 'v search_result \<times> error option"

subsection \<open>Strings: \<open>str.lower\<close> and \<open>in\<close>\<close>

text \<open>
  Model names are ASCII strings. \<open>str.lower\<close> maps \<open>A\<close>..\<open>Z\<close> (65..90) to
  \<open>a\<close>..\<open>z\<close> and leaves every other ASCII character as it is.
\<close>

definition lower_char :: "char \<Rightarrow> char" where
  "lower_char c =
     (let n = (of_char c :: nat) in if 65 \<le> n \<and> n \<le> 90 then char_of (n + 32) else c)"

definition lower :: "string \<Rightarrow> string" where
  "lower s = map lower_char s"

fun startswith :: "string \<Rightarrow> string \<Rightarrow> bool" where
  "startswith s [] = True"
| "startswith [] (p # ps) = False"
| "startswith (c # cs) (p # ps) = (c = p \<and> startswith cs ps)"

text \<open>\<open>str_contains s sub\<close> is Python's \<open>sub in s\<close> on strings.\<close>

fun str_contains :: "string \<Rightarrow> string \<Rightarrow> bool" where
  "str_contains [] sub = (sub = [])"
| "str_contains (c # cs) sub = (startswith (c # cs) sub \<or> str_contains cs sub)"

text \<open>Python's \<open>any\<close> on a list of truth values.\<close>

definition any_py :: "bool list \<Rightarrow> bool" where
  "any_py bs = list_ex (\<lambda>b. b) bs"

subsection \<open>The applicability guard (lines 41-56)\<close>

text \<open>
  \<open>any([True for r in search_results[hits] if any(s in r for s in searchable_fields)])\<close>:
  the comprehension keeps one \<open>True\<close> per hit that has one of the names as a key.
\<close>

definition check_searchable_fields_in_results :: "'v search_result \<Rightarrow> attrs \<Rightarrow> error + bool" where
  "check_searchable_fields_in_results search_results searchable_fields =
     (if searchable_fields = ANone then Inr True
      else (case search_results ResultsFields_hits of
              None \<Rightarrow> Inl (KeyError ResultsFields_hits)
            | Some hs \<Rightarrow>
                Inr (any_py (map (\<lambda>r. True)
                       (filter (\<lambda>r. any_py (map (\<lambda>s. s \<in> dom r) (attr_items searchable_fields)))
                          hs)))))"

subsection \<open>The cleanup (lines 58-78)\<close>

text \<open>The body of the loop, on one hit: three guarded steps in the source's order.\<close>

definition cleanup_result :: "'v hit \<Rightarrow> 'v hit" where
  "cleanup_result result =
     (let r1 = (if ResultsFields_reranker_score \<in> dom result
                then (result(ResultsFields_original_score := result ResultsFields_reranker_score))
                       (ResultsFields_reranker_score := None)
                else result);
          r2 = (if ResultsFields_highlights_reranked \<in> dom r1
                then (r1(ResultsFields_highlights := r1 ResultsFields_highlights_reranked))
                       (ResultsFields_highlights_reranked := None)
                else r1)
      in if ResultsFields_reranked_id \<in> dom r2 then r2(ResultsFields_reranked_id := None) else r2)"

text \<open>The loop over the hits, in order.\<close>

primrec cleanup_loop :: "'v hit list \<Rightarrow> 'v hit list" where
  "cleanup_loop [] = []"
| "cleanup_loop (result # rest) = cleanup_result result # cleanup_loop rest"

text \<open>
  The function returns nothing; what it hands back here is the result as it has
  left it, or the \<open>KeyError\<close> of the lookup, raised before anything is changed.
\<close>

definition cleanup_final_reranked_results :: "'v search_result \<Rightarrow> error + 'v search_result" where
  "cleanup_final_reranked_results reranked_results =
     (case reranked_results ResultsFields_hits of
        None \<Rightarrow> Inl (KeyError ResultsFields_hits)
      | Some hs \<Rightarrow> Inr (reranked_results(ResultsFields_hits \<mapsto> cleanup_loop hs)))"

subsection \<open>The entry point (lines 7-39)\<close>

text \<open>
  Lines 27-36: the choice of the reranker and its run. The outcome is the state
  of the result and the exception raised, if any.
\<close>

definition dispatch_reranker ::
  "'v rerankers \<Rightarrow> 'v search_result \<Rightarrow> string \<Rightarrow> string \<Rightarrow> string \<Rightarrow> attrs \<Rightarrow> int
     \<Rightarrow> 'v search_result \<times> error option" where
  "dispatch_reranker R search_result query model_name device searchable_attributes num_highlights =
     (if str_contains (lower model_name) ''owl'' then
        if searchable_attributes \<in> set [ANone, AList [], ATuple [], AStr []]
        then (search_result, Some (RerankerError searchable_attributes model_name))
        else ReRankerOwl R model_name device (240, 240) query search_result searchable_attributes
      else ReRankerText R model_name device num_highlights query search_result searchable_attributes)"

text \<open>
  The whole call: the final state of \<open>search_result\<close>, and the exception raised or
  the value returned.
\<close>

definition rerank_search_results ::
  "'v rerankers \<Rightarrow> 'v search_result \<Rightarrow> string \<Rightarrow> string \<Rightarrow> string \<Rightarrow> attrs \<Rightarrow> int \<Rightarrow> bool
     \<Rightarrow> 'v search_result \<times> (error + returned)" where
  "rerank_search_results R search_result query model_name device searchable_attributes
       num_highlights overwrite_original_scores_highlights =
     (case check_searchable_fields_in_results search_result searchable_attributes of
        Inl e \<Rightarrow> (search_result, Inl e)
      | Inr applicable \<Rightarrow>
          if \<not> applicable then (search_result, Inr Returns_search_result)
          else
            (case dispatch_reranker R search_result query model_name device
                    searchable_attributes num_highlights of
               (reranked, Some e) \<Rightarrow> (reranked, Inl e)
             | (reranked, None) \<Rightarrow>
                 if overwrite_original_scores_highlights then
                   (case cleanup_final_reranked_results reranked of
                      Inl e \<Rightarrow> (reranked, Inl e)
                    | Inr cleaned \<Rightarrow> (cleaned, Inr Returns_None))
                 else (reranked, Inr Returns_None)))"

subsection \<open>The specification's reading of the model-name test\<close>

text \<open>
  The spec selects the Owl strategy for "any model name containing the token", in any
  letter case. Written after those words: somewhere in the name stand three adjacent
  characters, an \<open>o\<close> or \<open>O\<close>, a \<open>w\<close> or \<open>W\<close>, an \<open>l\<close> or \<open>L\<close>.
\<close>

definition mentions_owl :: "string \<Rightarrow> bool" where
  "mentions_owl model_name =
     (\<exists>pre a b c post. model_name = pre @ [a, b, c] @ post \<and>
        a \<in> {CHR ''o'', CHR ''O''} \<and> b \<in> {CHR ''w'', CHR ''W''} \<and> c \<in> {CHR ''l'', CHR ''L''})"

text \<open>
  What happens after a reranker has run (lines 38-39, and an exception of the
  reranker passing through): a shorthand for the statements below.
\<close>

abbreviation after_rerank ::
  "bool \<Rightarrow> 'v search_result \<times> error option \<Rightarrow> 'v search_result \<times> (error + returned)" where
  "after_rerank overwrite outcome \<equiv>
     (case outcome of
        (reranked, Some e) \<Rightarrow> (reranked, Inl e)
      | (reranked, None) \<Rightarrow>
          if overwrite then
            (case cleanup_final_reranked_results reranked of
               Inl e \<Rightarrow> (reranked, Inl e)
             | Inr cleaned \<Rightarrow> (cleaned, Inr Returns_None))
          else (reranked, Inr Returns_None))"

subsection \<open>Example data\<close>

text \<open>
  Concrete values for the scenarios of the spec. Scores are written as the decimal
  numbers of the scenarios; they are only copied.
\<close>

datatype pyval = PyFloat real | PyStr string | PyList "pyval list"

text \<open>
  Scenarios A and B: two hits, one with a \<open>title\<close>, one with a \<open>desc\<close>.
\<close>

definition scenario_hits :: "pyval search_result" where
  "scenario_hits = [''hits'' \<mapsto> [[''title'' \<mapsto> PyStr ''a''], [''desc'' \<mapsto> PyStr ''b'']]]"

text \<open>
  Scenario C, scenario D, a hit no reranker has touched, and a result holding all
  three.
\<close>

definition scenario_C_hit :: "pyval hit" where
  "scenario_C_hit = [''original_score'' \<mapsto> PyFloat 0.5, ''reranker_score'' \<mapsto> PyFloat 0.9,
                     ''reranked_id'' \<mapsto> PyStr ''x1'']"

definition scenario_D_hit :: "pyval hit" where
  "scenario_D_hit = [''highlights'' \<mapsto> PyList [PyStr ''old''],
                     ''highlights_reranked'' \<mapsto> PyList [PyStr ''new'']]"

definition untouched_hit :: "pyval hit" where
  "untouched_hit = [''title'' \<mapsto> PyStr ''a'', ''original_score'' \<mapsto> PyFloat 0.3,
                    ''highlights'' \<mapsto> PyList [PyStr ''old'']]"

definition partly_reranked :: "pyval search_result" where
  "partly_reranked = [''hits'' \<mapsto> [scenario_C_hit, scenario_D_hit, untouched_hit]]"

text \<open>
  Two example rerankers. The first writes \<open>reranker_score\<close> and \<open>reranked_id\<close> on
  every hit, the second \<open>reranker_score\<close> and \<open>highlights_reranked\<close>; both raise
  \<open>KeyError\<close> on a result without hits.
\<close>

definition example_owl ::
  "string \<Rightarrow> string \<Rightarrow> nat \<times> nat \<Rightarrow> string \<Rightarrow> pyval search_result \<Rightarrow> attrs
     \<Rightarrow> pyval search_result \<times> error option" where
  "example_owl model_name device image_size query results image_attributes =
     (case results ''hits'' of
        None \<Rightarrow> (results, Some (KeyError ''hits''))
      | Some hs \<Rightarrow>
          (results(''hits'' \<mapsto> map (\<lambda>h. h(''reranker_score'' \<mapsto> PyFloat 0.9,
                                              ''reranked_id'' \<mapsto> PyStr ''x1'')) hs), None))"

definition example_text ::
  "string \<Rightarrow> string \<Rightarrow> int \<Rightarrow> string \<Rightarrow> pyval search_result \<Rightarrow> attrs
     \<Rightarrow> pyval search_result \<times> error option" where
  "example_text model_name device num_highlights query results searchable_attributes =
     (case results ''hits'' of
        None \<Rightarrow> (results, Some (KeyError ''hits''))
      | Some hs \<Rightarrow>
          (results(''hits'' \<mapsto> map (\<lambda>h. h(''reranker_score'' \<mapsto> PyFloat 0.7,
                                              ''highlights_reranked'' \<mapsto> PyList [PyStr ''new''])) hs),
           None))"

definition example_rerankers :: "pyval rerankers" where
  "example_rerankers = \<lparr>ReRankerOwl = example_owl, ReRankerText = example_text\<rparr>"

text \<open>
  The scenario hits as the first example reranker leaves them, the same after the
  cleanup, and the scenario hits as the second example reranker leaves them.
\<close>

definition owl_marked :: "pyval search_result" where
  "owl_marked =
     [''hits'' \<mapsto>
        [[''title'' \<mapsto> PyStr ''a'', ''reranker_score'' \<mapsto> PyFloat 0.9, ''reranked_id'' \<mapsto> PyStr ''x1''],
         [''desc'' \<mapsto> PyStr ''b'', ''reranker_score'' \<mapsto> PyFloat 0.9, ''reranked_id'' \<mapsto> PyStr ''x1'']]]"

definition owl_promoted :: "pyval search_result" where
  "owl_promoted =
     [''hits'' \<mapsto>
        [[''title'' \<mapsto> PyStr ''a'', ''original_score'' \<mapsto> PyFloat 0.9],
         [''desc'' \<mapsto> PyStr ''b'', ''original_score'' \<mapsto> PyFloat 0.9]]]"

definition text_marked :: "pyval search_result" where
  "text_marked =
     [''hits'' \<mapsto>
        [[''title'' \<mapsto> PyStr ''a'', ''reranker_score'' \<mapsto> PyFloat 0.7,
          ''highlights_reranked'' \<mapsto> PyList [PyStr ''new'']],
         [''desc'' \<mapsto> PyStr ''b'', ''reranker_score'' \<mapsto> PyFloat 0.7,
          ''highlights_reranked'' \<mapsto> PyList [PyStr ''new'']]]]"

section \<open>Auxiliary facts\<close>

subsection \<open>The guard and the cleanup of one hit\<close>

lemmas ResultsFields_defs =
  ResultsFields_hits_def ResultsFields_original_score_def ResultsFields_reranker_score_def
  ResultsFields_highlights_def ResultsFields_highlights_reranked_def ResultsFields_reranked_id_def

lemma any_py_iff: "any_py bs \<longleftrightarrow> True \<in> set bs"
  by (auto simp: any_py_def list_ex_iff)

lemma guard_None: "check_searchable_fields_in_results sr ANone = Inr True"
  by (simp add: check_searchable_fields_in_results_def)

lemma guard_value:
  "sr ResultsFields_hits = Some hs \<Longrightarrow> sf \<noteq> ANone \<Longrightarrow>
   check_searchable_fields_in_results sr sf =
     Inr (\<exists>h\<in>set hs. \<exists>f\<in>set (attr_items sf). f \<in> dom h)"
  by (auto simp: check_searchable_fields_in_results_def any_py_iff)

lemma guard_empty:
  "sr ResultsFields_hits = Some hs \<Longrightarrow> sa \<in> {AList [], ATuple [], AStr []} \<Longrightarrow>
   check_searchable_fields_in_results sr sa = Inr False"
  using guard_value[of sr hs sa] by auto

lemma cleanup_loop_map: "cleanup_loop hs = map cleanup_result hs"
  by (induction hs) simp_all

lemma cleanup_result_no_scratch:
  "ResultsFields_reranker_score \<notin> dom (cleanup_result h)"
  "ResultsFields_highlights_reranked \<notin> dom (cleanup_result h)"
  "ResultsFields_reranked_id \<notin> dom (cleanup_result h)"
  by (auto simp: cleanup_result_def Let_def ResultsFields_defs split: if_splits)

lemma cleanup_result_fixed:
  "ResultsFields_reranker_score \<notin> dom h \<Longrightarrow> ResultsFields_highlights_reranked \<notin> dom h \<Longrightarrow>
   ResultsFields_reranked_id \<notin> dom h \<Longrightarrow> cleanup_result h = h"
  by (simp add: cleanup_result_def Let_def)

lemma cleanup_result_idem: "cleanup_result (cleanup_result h) = cleanup_result h"
  by (rule cleanup_result_fixed) (rule cleanup_result_no_scratch)+

lemma cleanup_result_keeps_score:
  "ResultsFields_reranker_score \<notin> dom h \<Longrightarrow>
   cleanup_result h ResultsFields_original_score = h ResultsFields_original_score"
  by (simp add: cleanup_result_def Let_def ResultsFields_defs)

lemma cleanup_result_keeps_highlights:
  "ResultsFields_highlights_reranked \<notin> dom h \<Longrightarrow>
   cleanup_result h ResultsFields_highlights = h ResultsFields_highlights"
  by (simp add: cleanup_result_def Let_def ResultsFields_defs)

lemma cleanup_result_keeps_others:
  "k \<notin> {ResultsFields_original_score, ResultsFields_highlights, ResultsFields_reranker_score,
         ResultsFields_highlights_reranked, ResultsFields_reranked_id} \<Longrightarrow>
   cleanup_result h k = h k"
  by (simp add: cleanup_result_def Let_def)

lemma cleanup_result_promotes_score:
  "h ResultsFields_reranker_score = Some v \<Longrightarrow>
   cleanup_result h ResultsFields_original_score = Some v"
  by (simp add: cleanup_result_def Let_def ResultsFields_defs dom_def)

lemma cleanup_result_promotes_highlights:
  "h ResultsFields_highlights_reranked = Some v \<Longrightarrow>
   cleanup_result h ResultsFields_highlights = Some v"
  by (simp add: cleanup_result_def Let_def ResultsFields_defs dom_def)

lemma cleanup_final_value:
  "rr ResultsFields_hits = Some hs \<Longrightarrow>
   cleanup_final_reranked_results rr = Inr (rr(ResultsFields_hits \<mapsto> map cleanup_result hs))"
  by (simp add: cleanup_final_reranked_results_def cleanup_loop_map)

subsection \<open>The entry point, by the verdict of the guard\<close>

lemma rerank_not_applicable:
  "check_searchable_fields_in_results sr sa = Inr False \<Longrightarrow>
   rerank_search_results R sr q mn dev sa nh ow = (sr, Inr Returns_search_result)"
  by (simp add: rerank_search_results_def)

lemma rerank_applicable:
  "check_searchable_fields_in_results sr sa = Inr True \<Longrightarrow>
   rerank_search_results R sr q mn dev sa nh ow =
     after_rerank ow (dispatch_reranker R sr q mn dev sa nh)"
  by (simp add: rerank_search_results_def)

subsection \<open>Lower case and substrings\<close>

lemma of_char_eq_nat_iff:
  "(of_char c :: nat) = n \<longleftrightarrow> n < 256 \<and> c = char_of n"
proof
  assume h: "(of_char c :: nat) = n"
  have "(of_char c :: nat) < 256" by simp
  moreover have "char_of (of_char c :: nat) = c" by simp
  ultimately show "n < 256 \<and> c = char_of n" using h by auto
next
  assume "n < 256 \<and> c = char_of n"
  then show "(of_char c :: nat) = n" by simp
qed

lemma lower_char_of_char:
  "(of_char (lower_char c) :: nat) =
     (if 65 \<le> (of_char c :: nat) \<and> (of_char c :: nat) \<le> 90 then of_char c + 32 else of_char c)"
  by (simp add: lower_char_def Let_def)

lemma lower_char_eq_iff:
  assumes "97 \<le> (of_char d :: nat)" "(of_char d :: nat) \<le> 122"
  shows "lower_char c = d \<longleftrightarrow> c = d \<or> (of_char c :: nat) + 32 = of_char d"
proof -
  have "lower_char c = d \<longleftrightarrow> (of_char (lower_char c) :: nat) = of_char d"
    by simp
  also have "\<dots> \<longleftrightarrow> (of_char c :: nat) = of_char d \<or> (of_char c :: nat) + 32 = of_char d"
    using assms unfolding lower_char_of_char by auto
  finally show ?thesis by simp
qed

lemma upper_codes:
  "char_of (79::nat) = CHR ''O''" "char_of (87::nat) = CHR ''W''" "char_of (76::nat) = CHR ''L''"
  by code_simp+

lemma lower_char_o: "lower_char c = CHR ''o'' \<longleftrightarrow> c \<in> {CHR ''o'', CHR ''O''}"
  by (simp add: lower_char_eq_iff of_char_eq_nat_iff upper_codes)

lemma lower_char_w: "lower_char c = CHR ''w'' \<longleftrightarrow> c \<in> {CHR ''w'', CHR ''W''}"
  by (simp add: lower_char_eq_iff of_char_eq_nat_iff upper_codes)

lemma lower_char_l: "lower_char c = CHR ''l'' \<longleftrightarrow> c \<in> {CHR ''l'', CHR ''L''}"
  by (simp add: lower_char_eq_iff of_char_eq_nat_iff upper_codes)

lemma startswith_iff: "startswith s p \<longleftrightarrow> (\<exists>post. s = p @ post)"
  by (induction s p rule: startswith.induct) auto

lemma str_contains_iff: "str_contains s sub \<longleftrightarrow> (\<exists>pre post. s = pre @ sub @ post)"
proof (induction s)
  case Nil
  then show ?case by auto
next
  case (Cons c cs)
  show ?case
  proof
    assume "str_contains (c # cs) sub"
    then consider "startswith (c # cs) sub" | "str_contains cs sub" by auto
    then show "\<exists>pre post. c # cs = pre @ sub @ post"
    proof cases
      case 1
      then obtain post where "c # cs = [] @ sub @ post" by (auto simp: startswith_iff)
      then show ?thesis by blast
    next
      case 2
      then obtain pre post where "cs = pre @ sub @ post" using Cons.IH by blast
      then have "c # cs = (c # pre) @ sub @ post" by simp
      then show ?thesis by blast
    qed
  next
    assume "\<exists>pre post. c # cs = pre @ sub @ post"
    then obtain pre post where h: "c # cs = pre @ sub @ post" by blast
    show "str_contains (c # cs) sub"
    proof (cases pre)
      case Nil
      with h have "startswith (c # cs) sub" by (auto simp: startswith_iff)
      then show ?thesis by simp
    next
      case (Cons d pre')
      with h have "cs = pre' @ sub @ post" by simp
      then have "str_contains cs sub" using Cons.IH by blast
      then show ?thesis by simp
    qed
  qed
qed

lemma map_lower_owl:
  "map lower_char m = ''owl'' \<longleftrightarrow>
     (\<exists>a b c. m = [a, b, c] \<and> a \<in> {CHR ''o'', CHR ''O''} \<and> b \<in> {CHR ''w'', CHR ''W''} \<and>
        c \<in> {CHR ''l'', CHR ''L''})"
proof -
  have "map lower_char m = ''owl'' \<longleftrightarrow>
     (\<exists>a b c. m = [a, b, c] \<and> lower_char a = CHR ''o'' \<and> lower_char b = CHR ''w'' \<and>
        lower_char c = CHR ''l'')"
    by (auto simp: map_eq_Cons_conv)
  then show ?thesis
    by (simp only: lower_char_o lower_char_w lower_char_l)
qed

lemma map_eq_infix:
  "(\<exists>pre post. map f xs = pre @ w @ post) \<longleftrightarrow> (\<exists>p m t. xs = p @ m @ t \<and> map f m = w)"
proof
  assume "\<exists>pre post. map f xs = pre @ w @ post"
  then obtain pre post where h: "map f xs = pre @ (w @ post)"
    by blast
  then obtain p vs where p: "xs = p @ vs" and vs: "w @ post = map f vs"
    unfolding map_eq_append_conv by blast
  from vs obtain m t where t: "vs = m @ t" and m: "w = map f m"
    unfolding append_eq_map_conv by blast
  from p t m show "\<exists>p m t. xs = p @ m @ t \<and> map f m = w"
    by blast
next
  assume "\<exists>p m t. xs = p @ m @ t \<and> map f m = w"
  then obtain p m t where "xs = p @ m @ t" and "map f m = w"
    by blast
  then have "map f xs = map f p @ w @ map f t"
    by simp
  then show "\<exists>pre post. map f xs = pre @ w @ post"
    by blast
qed

lemma infix_three:
  "(\<exists>p m t. xs = p @ m @ t \<and> (\<exists>a b c. m = [a, b, c] \<and> P a \<and> Q b \<and> R c)) \<longleftrightarrow>
   (\<exists>pre a b c post. xs = pre @ [a, b, c] @ post \<and> P a \<and> Q b \<and> R c)"
  by blast

text \<open>
  The test of line 27, \<open>'owl' in model_name.lower()\<close>, holds exactly for the names
  that mention the token in some letter case.
\<close>

lemma owl_test_iff: "str_contains (lower model_name) ''owl'' \<longleftrightarrow> mentions_owl model_name"
  unfolding str_contains_iff lower_def map_eq_infix map_lower_owl mentions_owl_def
  by (rule infix_three)

subsection \<open>The example data, evaluated\<close>

lemma scenario_hits_hits:
  "scenario_hits ResultsFields_hits =
     Some [[''title'' \<mapsto> PyStr ''a''], [''desc'' \<mapsto> PyStr ''b'']]"
  by (simp add: scenario_hits_def ResultsFields_hits_def)

lemma partly_reranked_hits:
  "partly_reranked ResultsFields_hits = Some [scenario_C_hit, scenario_D_hit, untouched_hit]"
  by (simp add: partly_reranked_def ResultsFields_hits_def)

lemma guard_title: "check_searchable_fields_in_results scenario_hits (AList [''title'']) = Inr True"
  using guard_value[of scenario_hits
          "[[''title'' \<mapsto> PyStr ''a''], [''desc'' \<mapsto> PyStr ''b'']]" "AList [''title'']"]
  by (simp add: scenario_hits_hits)

lemma example_owl_marks:
  "example_owl mn dev sz q scenario_hits sa = (owl_marked, None)"
  by (simp add: example_owl_def scenario_hits_def owl_marked_def)

lemma example_text_marks:
  "example_text mn dev nh q scenario_hits sa = (text_marked, None)"
  by (simp add: example_text_def scenario_hits_def text_marked_def)

lemma cleanup_owl_marked: "cleanup_final_reranked_results owl_marked = Inr owl_promoted"
proof -
  have "cleanup_result [''title'' \<mapsto> PyStr ''a'', ''reranker_score'' \<mapsto> PyFloat 0.9,
                        ''reranked_id'' \<mapsto> PyStr ''x1''] =
        [''title'' \<mapsto> PyStr ''a'', ''original_score'' \<mapsto> PyFloat 0.9]"
    by (rule ext) (simp add: cleanup_result_def Let_def ResultsFields_defs)
  moreover have "cleanup_result [''desc'' \<mapsto> PyStr ''b'', ''reranker_score'' \<mapsto> PyFloat 0.9,
                        ''reranked_id'' \<mapsto> PyStr ''x1''] =
        [''desc'' \<mapsto> PyStr ''b'', ''original_score'' \<mapsto> PyFloat 0.9]"
    by (rule ext) (simp add: cleanup_result_def Let_def ResultsFields_defs)
  ultimately show ?thesis
    by (simp add: cleanup_final_reranked_results_def owl_marked_def owl_promoted_def
          ResultsFields_hits_def)
qed

lemma owl_vit_mentions_owl: "str_contains (lower ''owl-vit'') ''owl''"
  by code_simp

lemma mixed_case_owl: "str_contains (lower ''Google/OWL-ViT'') ''owl''"
  by code_simp

lemma no_owl: "\<not> str_contains (lower ''cross-encoder/ms-marco'') ''owl''"
  by code_simp

section \<open>The claims\<close>

subsection \<open>C1: an Owl model with empty attributes\<close>

text \<open>
  Claim C1 says that an Owl model name with \<open>searchable_attributes\<close> equal to
  \<open>None\<close>, \<open>[]\<close>, \<open>()\<close> or \<open>""\<close> raises \<open>RerankerError\<close> with the result
  untouched. Line 29 tests for exactly these four values, but the guard of line 24
  runs first: on the scenario hits with the model name \<open>owl-vit\<close>, the empty list,
  the empty tuple and the empty string make the call return the result it was given,
  with no exception; only \<open>None\<close> reaches line 30 and raises. The result is left
  as it was in all four cases.
\<close>

theorem owl_empty_attributes_no_error:
  "rerank_search_results R scenario_hits q ''owl-vit'' dev (AList []) nh ow =
     (scenario_hits, Inr Returns_search_result) \<and>
   rerank_search_results R scenario_hits q ''owl-vit'' dev (ATuple []) nh ow =
     (scenario_hits, Inr Returns_search_result) \<and>
   rerank_search_results R scenario_hits q ''owl-vit'' dev (AStr []) nh ow =
     (scenario_hits, Inr Returns_search_result) \<and>
   rerank_search_results R scenario_hits q ''owl-vit'' dev ANone nh ow =
     (scenario_hits, Inl (RerankerError ANone ''owl-vit''))"
proof -
  have "check_searchable_fields_in_results scenario_hits sa = Inr False"
    if "sa \<in> {AList [], ATuple [], AStr []}" for sa
    using guard_empty[of scenario_hits
            "[[''title'' \<mapsto> PyStr ''a''], [''desc'' \<mapsto> PyStr ''b'']]" sa] that
    by (simp add: scenario_hits_hits)
  then have "rerank_search_results R scenario_hits q ''owl-vit'' dev sa nh ow =
     (scenario_hits, Inr Returns_search_result)" if "sa \<in> {AList [], ATuple [], AStr []}" for sa
    using that by (intro rerank_not_applicable) blast
  moreover have "rerank_search_results R scenario_hits q ''owl-vit'' dev ANone nh ow =
     (scenario_hits, Inl (RerankerError ANone ''owl-vit''))"
    using owl_vit_mentions_owl
    by (simp add: rerank_applicable guard_None dispatch_reranker_def)
  ultimately show ?thesis by simp
qed

subsection \<open>C2: the applicability guard\<close>

text \<open>
  Claim C2: with \<open>searchable_fields = None\<close> the guard returns true for every result;
  and for every result with hits and every list of names (the non-empty ones among
  them) it returns true if and only if some hit has some listed name as a key.
\<close>

theorem guard_correct:
  "check_searchable_fields_in_results sr ANone = Inr True \<and>
   (sr ResultsFields_hits = Some hs \<longrightarrow>
      check_searchable_fields_in_results sr (AList names) =
        Inr (\<exists>h\<in>set hs. \<exists>f\<in>set names. f \<in> dom h))"
  using guard_value[of sr hs "AList names"] by (simp add: guard_None)

text \<open>
  Scenarios A and B of the spec: \<open>title\<close> is a key of the first hit, \<open>price\<close> of
  none.
\<close>

theorem guard_correct_witness:
  "check_searchable_fields_in_results scenario_hits ANone = Inr True \<and>
   scenario_hits ResultsFields_hits =
     Some [[''title'' \<mapsto> PyStr ''a''], [''desc'' \<mapsto> PyStr ''b'']] \<and>
   check_searchable_fields_in_results scenario_hits (AList [''title'']) = Inr True \<and>
   check_searchable_fields_in_results scenario_hits (AList [''price'']) = Inr False"
  using guard_correct[of scenario_hits "[[''title'' \<mapsto> PyStr ''a''], [''desc'' \<mapsto> PyStr ''b'']]"
          "[''title'']"]
        guard_correct[of scenario_hits "[[''title'' \<mapsto> PyStr ''a''], [''desc'' \<mapsto> PyStr ''b'']]"
          "[''price'']"]
  by (simp add: scenario_hits_hits)

subsection \<open>C3: no scratch key survives the cleanup\<close>

text \<open>
  Claim C3: on every result with hits the cleanup returns, it changes nothing but
  the list of hits, it keeps their number, and afterwards no hit has any of the keys
  \<open>reranker_score\<close>, \<open>highlights_reranked\<close>, \<open>reranked_id\<close>, whatever the hits held
  before.
\<close>

theorem cleanup_quarantine:
  "rr ResultsFields_hits = Some hs \<Longrightarrow>
   \<exists>hs'. cleanup_final_reranked_results rr = Inr (rr(ResultsFields_hits \<mapsto> hs')) \<and>
     length hs' = length hs \<and>
     (\<forall>h\<in>set hs'. ResultsFields_reranker_score \<notin> dom h \<and>
        ResultsFields_highlights_reranked \<notin> dom h \<and> ResultsFields_reranked_id \<notin> dom h)"
proof -
  assume h: "rr ResultsFields_hits = Some hs"
  have "\<forall>h\<in>set (map cleanup_result hs). ResultsFields_reranker_score \<notin> dom h \<and>
        ResultsFields_highlights_reranked \<notin> dom h \<and> ResultsFields_reranked_id \<notin> dom h"
    by (simp add: cleanup_result_no_scratch)
  with cleanup_final_value[of rr hs, OF h] show ?thesis
    by (intro exI[of _ "map cleanup_result hs"]) simp
qed

theorem cleanup_quarantine_witness:
  "partly_reranked ResultsFields_hits = Some [scenario_C_hit, scenario_D_hit, untouched_hit] \<and>
   (\<exists>hs'. cleanup_final_reranked_results partly_reranked =
             Inr (partly_reranked(ResultsFields_hits \<mapsto> hs')) \<and>
      length hs' = length [scenario_C_hit, scenario_D_hit, untouched_hit] \<and>
      (\<forall>h\<in>set hs'. ResultsFields_reranker_score \<notin> dom h \<and>
         ResultsFields_highlights_reranked \<notin> dom h \<and> ResultsFields_reranked_id \<notin> dom h))"
  by (rule conjI[OF partly_reranked_hits
        cleanup_quarantine[of partly_reranked "[scenario_C_hit, scenario_D_hit, untouched_hit]",
          OF partly_reranked_hits]])

subsection \<open>C4: the cleanup is idempotent\<close>

text \<open>
  Claim C4: on every result with hits the cleanup returns, and the cleanup of what
  it returns is that same result again.
\<close>

theorem cleanup_idempotent:
  "rr ResultsFields_hits = Some hs \<Longrightarrow>
   \<exists>rr'. cleanup_final_reranked_results rr = Inr rr' \<and>
     cleanup_final_reranked_results rr' = Inr rr'"
proof -
  assume h: "rr ResultsFields_hits = Some hs"
  let ?rr' = "rr(ResultsFields_hits \<mapsto> map cleanup_result hs)"
  have "?rr' ResultsFields_hits = Some (map cleanup_result hs)" by simp
  from cleanup_final_value[of ?rr' "map cleanup_result hs", OF this]
  have "cleanup_final_reranked_results ?rr' = Inr ?rr'"
    by (simp add: comp_def cleanup_result_idem)
  with cleanup_final_value[of rr hs, OF h] show ?thesis by simp
qed

theorem cleanup_idempotent_witness:
  "partly_reranked ResultsFields_hits = Some [scenario_C_hit, scenario_D_hit, untouched_hit] \<and>
   (\<exists>rr'. cleanup_final_reranked_results partly_reranked = Inr rr' \<and>
      cleanup_final_reranked_results rr' = Inr rr')"
  by (rule conjI[OF partly_reranked_hits
        cleanup_idempotent[of partly_reranked "[scenario_C_hit, scenario_D_hit, untouched_hit]",
          OF partly_reranked_hits]])

subsection \<open>C5: what the cleanup leaves alone\<close>

text \<open>
  Claim C5: for every hit, at its position in the list, the cleanup leaves
  \<open>original_score\<close> as it was when the hit has no \<open>reranker_score\<close>, leaves
  \<open>highlights\<close> as it was when the hit has no \<open>highlights_reranked\<close>, and leaves
  every field other than these four and \<open>reranked_id\<close> as it was; the entries of the
  result other than the hits stay too.
\<close>

theorem cleanup_frame:
  "rr ResultsFields_hits = Some hs \<Longrightarrow>
   \<exists>hs'. cleanup_final_reranked_results rr = Inr (rr(ResultsFields_hits \<mapsto> hs')) \<and>
     length hs' = length hs \<and>
     (\<forall>i<length hs.
        (ResultsFields_reranker_score \<notin> dom (hs ! i) \<longrightarrow>
           (hs' ! i) ResultsFields_original_score = (hs ! i) ResultsFields_original_score) \<and>
        (ResultsFields_highlights_reranked \<notin> dom (hs ! i) \<longrightarrow>
           (hs' ! i) ResultsFields_highlights = (hs ! i) ResultsFields_highlights) \<and>
        (\<forall>k. k \<notin> {ResultsFields_original_score, ResultsFields_highlights,
                    ResultsFields_reranker_score, ResultsFields_highlights_reranked,
                    ResultsFields_reranked_id} \<longrightarrow> (hs' ! i) k = (hs ! i) k))"
proof -
  assume h: "rr ResultsFields_hits = Some hs"
  show ?thesis
    using cleanup_final_value[of rr hs, OF h]
    by (intro exI[of _ "map cleanup_result hs"])
       (simp add: cleanup_result_keeps_score cleanup_result_keeps_highlights
          cleanup_result_keeps_others)
qed

theorem cleanup_frame_witness:
  "partly_reranked ResultsFields_hits = Some [scenario_C_hit, scenario_D_hit, untouched_hit] \<and>
   (\<exists>hs'. cleanup_final_reranked_results partly_reranked =
             Inr (partly_reranked(ResultsFields_hits \<mapsto> hs')) \<and>
     length hs' = length [scenario_C_hit, scenario_D_hit, untouched_hit] \<and>
     (\<forall>i<length [scenario_C_hit, scenario_D_hit, untouched_hit].
        (ResultsFields_reranker_score \<notin> dom ([scenario_C_hit, scenario_D_hit, untouched_hit] ! i) \<longrightarrow>
           (hs' ! i) ResultsFields_original_score =
             ([scenario_C_hit, scenario_D_hit, untouched_hit] ! i) ResultsFields_original_score) \<and>
        (ResultsFields_highlights_reranked \<notin> dom ([scenario_C_hit, scenario_D_hit, untouched_hit] ! i) \<longrightarrow>
           (hs' ! i) ResultsFields_highlights =
             ([scenario_C_hit, scenario_D_hit, untouched_hit] ! i) ResultsFields_highlights) \<and>
        (\<forall>k. k \<notin> {ResultsFields_original_score, ResultsFields_highlights,
                    ResultsFields_reranker_score, ResultsFields_highlights_reranked,
                    ResultsFields_reranked_id} \<longrightarrow>
           (hs' ! i) k = ([scenario_C_hit, scenario_D_hit, untouched_hit] ! i) k)))"
  by (rule conjI[OF partly_reranked_hits
        cleanup_frame[of partly_reranked "[scenario_C_hit, scenario_D_hit, untouched_hit]",
          OF partly_reranked_hits]])

subsection \<open>C6: what the cleanup promotes\<close>

text \<open>
  Claim C6: for every hit with a \<open>reranker_score\<close>, after the cleanup its
  \<open>original_score\<close> is that value and \<open>reranker_score\<close> and \<open>reranked_id\<close> are
  gone; for every hit with a \<open>highlights_reranked\<close>, its \<open>highlights\<close> is that value
  and \<open>highlights_reranked\<close> is gone. Scenario C becomes exactly
  \<open>{"original_score": 0.9}\<close> and scenario D exactly \<open>{"highlights": ["new"]}\<close>.
\<close>

theorem cleanup_promotes:
  "(rr ResultsFields_hits = Some hs \<longrightarrow>
     (\<exists>hs'. cleanup_final_reranked_results rr = Inr (rr(ResultsFields_hits \<mapsto> hs')) \<and>
        length hs' = length hs \<and>
        (\<forall>i<length hs.
           (\<forall>v. (hs ! i) ResultsFields_reranker_score = Some v \<longrightarrow>
              (hs' ! i) ResultsFields_original_score = Some v \<and>
              ResultsFields_reranker_score \<notin> dom (hs' ! i) \<and>
              ResultsFields_reranked_id \<notin> dom (hs' ! i)) \<and>
           (\<forall>v. (hs ! i) ResultsFields_highlights_reranked = Some v \<longrightarrow>
              (hs' ! i) ResultsFields_highlights = Some v \<and>
              ResultsFields_highlights_reranked \<notin> dom (hs' ! i))))) \<and>
   cleanup_final_reranked_results [''hits'' \<mapsto> [scenario_C_hit]] =
     Inr [''hits'' \<mapsto> [[''original_score'' \<mapsto> PyFloat 0.9]]] \<and>
   cleanup_final_reranked_results [''hits'' \<mapsto> [scenario_D_hit]] =
     Inr [''hits'' \<mapsto> [[''highlights'' \<mapsto> PyList [PyStr ''new'']]]]"
proof (intro conjI impI)
  assume h: "rr ResultsFields_hits = Some hs"
  show "\<exists>hs'. cleanup_final_reranked_results rr = Inr (rr(ResultsFields_hits \<mapsto> hs')) \<and>
        length hs' = length hs \<and>
        (\<forall>i<length hs.
           (\<forall>v. (hs ! i) ResultsFields_reranker_score = Some v \<longrightarrow>
              (hs' ! i) ResultsFields_original_score = Some v \<and>
              ResultsFields_reranker_score \<notin> dom (hs' ! i) \<and>
              ResultsFields_reranked_id \<notin> dom (hs' ! i)) \<and>
           (\<forall>v. (hs ! i) ResultsFields_highlights_reranked = Some v \<longrightarrow>
              (hs' ! i) ResultsFields_highlights = Some v \<and>
              ResultsFields_highlights_reranked \<notin> dom (hs' ! i)))"
    using cleanup_final_value[of rr hs, OF h]
    by (intro exI[of _ "map cleanup_result hs"])
       (simp add: cleanup_result_promotes_score cleanup_result_promotes_highlights
          cleanup_result_no_scratch)
next
  have "cleanup_result scenario_C_hit = [''original_score'' \<mapsto> PyFloat 0.9]"
    by (rule ext) (simp add: cleanup_result_def scenario_C_hit_def Let_def ResultsFields_defs)
  then show "cleanup_final_reranked_results [''hits'' \<mapsto> [scenario_C_hit]] =
     Inr [''hits'' \<mapsto> [[''original_score'' \<mapsto> PyFloat 0.9]]]"
    by (simp add: cleanup_final_reranked_results_def ResultsFields_hits_def)
next
  have "cleanup_result scenario_D_hit = [''highlights'' \<mapsto> PyList [PyStr ''new'']]"
    by (rule ext) (simp add: cleanup_result_def scenario_D_hit_def Let_def ResultsFields_defs)
  then show "cleanup_final_reranked_results [''hits'' \<mapsto> [scenario_D_hit]] =
     Inr [''hits'' \<mapsto> [[''highlights'' \<mapsto> PyList [PyStr ''new'']]]]"
    by (simp add: cleanup_final_reranked_results_def ResultsFields_hits_def)
qed

theorem cleanup_promotes_witness:
  "[''hits'' \<mapsto> [scenario_C_hit]] ResultsFields_hits = Some [scenario_C_hit] \<and>
   scenario_C_hit ResultsFields_reranker_score = Some (PyFloat 0.9) \<and>
   cleanup_final_reranked_results [''hits'' \<mapsto> [scenario_C_hit]] =
     Inr [''hits'' \<mapsto> [[''original_score'' \<mapsto> PyFloat 0.9]]] \<and>
   cleanup_final_reranked_results [''hits'' \<mapsto> [scenario_D_hit]] =
     Inr [''hits'' \<mapsto> [[''highlights'' \<mapsto> PyList [PyStr ''new'']]]]"
  using cleanup_promotes[of "[''hits'' \<mapsto> [scenario_C_hit]]" "[scenario_C_hit]"]
  by (simp add: ResultsFields_hits_def ResultsFields_reranker_score_def scenario_C_hit_def)

subsection \<open>C7: what the call returns when the guard rejects\<close>

text \<open>
  Claim C7 says that the call returns \<open>None\<close> on every input and leaves the result
  unchanged when the guard rejects it. On scenario B (no hit has a \<open>price\<close>) the
  result is indeed unchanged, but the value returned is the \<open>search_result\<close> object
  (line 25), not \<open>None\<close> as the annotation \<open>-> None\<close> of the function announces;
  this for every model name, reranker and flag.
\<close>

theorem guard_reject_returns_search_result:
  "rerank_search_results R scenario_hits q mn dev (AList [''price'']) nh ow =
     (scenario_hits, Inr Returns_search_result)"
proof -
  have "check_searchable_fields_in_results scenario_hits (AList [''price'']) = Inr False"
    using guard_value[of scenario_hits
            "[[''title'' \<mapsto> PyStr ''a''], [''desc'' \<mapsto> PyStr ''b'']]" "AList [''price'']"]
    by (simp add: scenario_hits_hits)
  then show ?thesis by (rule rerank_not_applicable)
qed

subsection \<open>C8: the choice of the strategy\<close>

text \<open>
  Claim C8: once the guard has accepted, the model name alone decides the strategy,
  by whether it mentions the token in some letter case. A name that does goes to
  \<open>ReRankerOwl\<close> (after the test of line 29), every other name to \<open>ReRankerText\<close>.
\<close>

theorem strategy_selection:
  "check_searchable_fields_in_results sr sa = Inr True \<Longrightarrow>
   rerank_search_results R sr q mn dev sa nh ow =
     (if mentions_owl mn then
        (if sa \<in> {ANone, AList [], ATuple [], AStr []} then (sr, Inl (RerankerError sa mn))
         else after_rerank ow (ReRankerOwl R mn dev (240, 240) q sr sa))
      else after_rerank ow (ReRankerText R mn dev nh q sr sa))"
  by (simp add: rerank_applicable dispatch_reranker_def owl_test_iff)

text \<open>
  A name in mixed case goes to the first example reranker, a name without the token
  to the second.
\<close>

theorem strategy_selection_witness:
  "check_searchable_fields_in_results scenario_hits (AList [''title'']) = Inr True \<and>
   mentions_owl ''Google/OWL-ViT'' \<and>
   rerank_search_results example_rerankers scenario_hits ''query'' ''Google/OWL-ViT'' ''cpu''
     (AList [''title'']) 1 False = (owl_marked, Inr Returns_None) \<and>
   \<not> mentions_owl ''cross-encoder/ms-marco'' \<and>
   rerank_search_results example_rerankers scenario_hits ''query'' ''cross-encoder/ms-marco'' ''cpu''
     (AList [''title'']) 1 False = (text_marked, Inr Returns_None)"
proof -
  have m1: "mentions_owl ''Google/OWL-ViT''"
    by (rule iffD1[OF owl_test_iff mixed_case_owl])
  have m2: "\<not> mentions_owl ''cross-encoder/ms-marco''"
    using no_owl unfolding owl_test_iff .
  show ?thesis
    using strategy_selection[OF guard_title, of example_rerankers "''query''" "''Google/OWL-ViT''"
            "''cpu''" 1 False]
          strategy_selection[OF guard_title, of example_rerankers "''query''"
            "''cross-encoder/ms-marco''" "''cpu''" 1 False]
    by (simp add: guard_title m1 m2 example_rerankers_def example_owl_marks example_text_marks)
qed

subsection \<open>C9: the overwrite flag\<close>

text \<open>
  Claim C9: when the guard has accepted and the reranker has returned, the flag
  \<open>overwrite_original_scores_highlights = False\<close> leaves the result exactly as the
  reranker left it, scratch fields included, and \<open>True\<close> applies the cleanup, once, to
  what the reranker left.
\<close>

theorem overwrite_flag:
  "check_searchable_fields_in_results sr sa = Inr True \<Longrightarrow>
   dispatch_reranker R sr q mn dev sa nh = (reranked, None) \<Longrightarrow>
   rerank_search_results R sr q mn dev sa nh False = (reranked, Inr Returns_None) \<and>
   rerank_search_results R sr q mn dev sa nh True =
     (case cleanup_final_reranked_results reranked of
        Inl e \<Rightarrow> (reranked, Inl e)
      | Inr cleaned \<Rightarrow> (cleaned, Inr Returns_None))"
  by (simp add: rerank_applicable)

theorem overwrite_flag_witness:
  "check_searchable_fields_in_results scenario_hits (AList [''title'']) = Inr True \<and>
   dispatch_reranker example_rerankers scenario_hits ''query'' ''Google/OWL-ViT'' ''cpu''
     (AList [''title'']) 1 = (owl_marked, None) \<and>
   rerank_search_results example_rerankers scenario_hits ''query'' ''Google/OWL-ViT'' ''cpu''
     (AList [''title'']) 1 False = (owl_marked, Inr Returns_None) \<and>
   rerank_search_results example_rerankers scenario_hits ''query'' ''Google/OWL-ViT'' ''cpu''
     (AList [''title'']) 1 True = (owl_promoted, Inr Returns_None)"
proof -
  have d: "dispatch_reranker example_rerankers scenario_hits ''query'' ''Google/OWL-ViT'' ''cpu''
     (AList [''title'']) 1 = (owl_marked, None)"
    using mixed_case_owl
    by (simp add: dispatch_reranker_def example_rerankers_def example_owl_marks)
  show ?thesis
    using overwrite_flag[OF guard_title d]
    by (simp add: guard_title d cleanup_owl_marked)
qed

subsection \<open>C10: empty attributes skip the reranking\<close>

text \<open>
  Claim C10: for every result with hits, the guard returns false on \<open>[]\<close>, \<open>()\<close>
  and \<open>""\<close>, whatever the hits hold; so the call returns the result it was given,
  unchanged and with no exception, for every model name.
\<close>

theorem empty_attributes_skip:
  "sr ResultsFields_hits = Some hs \<Longrightarrow> sa \<in> {AList [], ATuple [], AStr []} \<Longrightarrow>
   check_searchable_fields_in_results sr sa = Inr False \<and>
   rerank_search_results R sr q mn dev sa nh ow = (sr, Inr Returns_search_result)"
  using guard_empty[of sr hs sa] rerank_not_applicable[of sr sa R q mn dev nh ow] by simp

theorem empty_attributes_skip_witness:
  "scenario_hits ResultsFields_hits =
     Some [[''title'' \<mapsto> PyStr ''a''], [''desc'' \<mapsto> PyStr ''b'']] \<and>
   check_searchable_fields_in_results scenario_hits (AList []) = Inr False \<and>
   rerank_search_results example_rerankers scenario_hits ''query'' ''owl-vit'' ''cpu'' (AList []) 1 True =
     (scenario_hits, Inr Returns_search_result) \<and>
   rerank_search_results example_rerankers scenario_hits ''query'' ''bert'' ''cpu'' (ATuple []) 1 True =
     (scenario_hits, Inr Returns_search_result) \<and>
   rerank_search_results example_rerankers scenario_hits ''query'' ''bert'' ''cpu'' (AStr []) 1 False =
     (scenario_hits, Inr Returns_search_result)"
  using empty_attributes_skip[of scenario_hits
          "[[''title'' \<mapsto> PyStr ''a''], [''desc'' \<mapsto> PyStr ''b'']]" "AList []"
          example_rerankers "''query''" "''owl-vit''" "''cpu''" 1 True]
        empty_attributes_skip[of scenario_hits
          "[[''title'' \<mapsto> PyStr ''a''], [''desc'' \<mapsto> PyStr ''b'']]" "ATuple []"
          example_rerankers "''query''" "''bert''" "''cpu''" 1 True]
        empty_attributes_skip[of scenario_hits
          "[[''title'' \<mapsto> PyStr ''a''], [''desc'' \<mapsto> PyStr ''b'']]" "AStr []"
          example_rerankers "''query''" "''bert''" "''cpu''" 1 False]
  by (simp add: scenario_hits_hits)

end
